theory Spec2Isabelle
  imports Complex_Main
begin

section \<open>Values shared by the dashboard routes and the Memory Store\<close>

text \<open>
  A parsed JSON value as JavaScript sees it after \<open>request.json()\<close>; \<open>JUndefined\<close> is what
  reading an absent property gives. A number is the exact value of the parsed double.
  The properties of an object are an association list with one entry per key.
\<close>

datatype json =
    JUndefined
  | JNull
  | JBool bool
  | JNum rat
  | JStr string
  | JArr "json list"
  | JObj "(string \<times> json) list"

text \<open>JavaScript's \<open>!v\<close>: true for undefined, null, false, 0 and the empty string.\<close>

fun falsy :: "json \<Rightarrow> bool" where
  "falsy JUndefined = True"
| "falsy JNull = True"
| "falsy (JBool b) = (\<not> b)"
| "falsy (JNum n) = (n = 0)"
| "falsy (JStr s) = (s = [])"
| "falsy (JArr xs) = False"
| "falsy (JObj kvs) = False"

text \<open>
  One name of a destructuring pattern \<open>const { k } = body\<close>, for a body that is neither
  null nor undefined: the property of an object, undefined on any other value (none of
  the names read by the routes is a property of a boxed primitive or of an array).
\<close>

fun field :: "json \<Rightarrow> string \<Rightarrow> json" where
  "field (JObj kvs) k = (case map_of kvs k of Some v \<Rightarrow> v | None \<Rightarrow> JUndefined)"
| "field other k = JUndefined"

text \<open>What a route answers: \<open>NextResponse.json({ error }, { status })\<close> or
  \<open>NextResponse.json({ success: true, data })\<close> (status 200).\<close>

datatype 'a response = Json_error nat string | Json_success 'a

fun status_code :: "'a response \<Rightarrow> nat" where
  "status_code (Json_error c msg) = c"
| "status_code (Json_success d) = 200"


section \<open>The leads route (frontend/src/app/api/leads/route.ts)\<close>

text \<open>The object handed to \<open>supabase.from('leads').insert\<close>.\<close>

record lead_insert =
  user_id :: string
  agent_run_id :: json
  row_full_name :: json
  row_email :: json
  row_company :: json
  row_title :: json
  linkedin_url :: json
  website_url :: json
  row_notes :: json

text \<open>
  The Supabase client as the route uses it: the session (the user id, if any), the answer
  of the \<open>agent_runs\<close> lookup \<open>.eq('id', agent_run_id).eq('user_id', userId).single()\<close>,
  whether the database accepts an insert, and the rows of the \<open>leads\<close> table. The
  client's calls are taken to return: they report a failure in their \<open>error\<close> field.
\<close>

record leads_backend =
  session :: "string option"
  owns_agent_run :: "json \<Rightarrow> string \<Rightarrow> bool"
  insert_accepted :: "lead_insert \<Rightarrow> bool"
  leads_table :: "lead_insert list"

text \<open>
  \<open>POST\<close> of the leads route. The body is \<open>None\<close> when \<open>request.json()\<close> throws; a
  null body makes the destructuring throw; both land in the \<open>catch\<close> (500). The result is
  the response and the rows of the \<open>leads\<close> table afterwards.
\<close>

definition leads_POST ::
  "leads_backend \<Rightarrow> json option \<Rightarrow> lead_insert response \<times> lead_insert list" where
  "leads_POST b request_body =
     (case session b of
        None \<Rightarrow> (Json_error 401 ''Unauthorized'', leads_table b)
      | Some userId \<Rightarrow>
         (case request_body of
            None \<Rightarrow> (Json_error 500 ''Internal server error'', leads_table b)
          | Some body \<Rightarrow>
             if body = JNull \<or> body = JUndefined
             then (Json_error 500 ''Internal server error'', leads_table b)
             else if falsy (field body ''agent_run_id'') \<or> falsy (field body ''full_name'')
                     \<or> falsy (field body ''email'') \<or> falsy (field body ''company'')
                     \<or> falsy (field body ''title'')
             then (Json_error 400 ''Missing required fields'', leads_table b)
             else if \<not> owns_agent_run b (field body ''agent_run_id'') userId
             then (Json_error 404 ''Agent run not found or access denied'', leads_table b)
             else
               (let row = \<lparr> user_id = userId,
                            agent_run_id = field body ''agent_run_id'',
                            row_full_name = field body ''full_name'',
                            row_email = field body ''email'',
                            row_company = field body ''company'',
                            row_title = field body ''title'',
                            linkedin_url = field body ''linkedin_url'',
                            website_url = field body ''website_url'',
                            row_notes = field body ''notes'' \<rparr>
                in if insert_accepted b row
                   then (Json_success row, leads_table b @ [row])
                   else (Json_error 500 ''Failed to create lead'', leads_table b))))"

text \<open>A value is empty when it is missing (undefined, null) or the empty string.\<close>

definition empty_value :: "json \<Rightarrow> bool" where
  "empty_value v = (v = JUndefined \<or> v = JNull \<or> v = JStr [])"

definition required_present :: "lead_insert \<Rightarrow> bool" where
  "required_present r =
     (\<not> empty_value (agent_run_id r) \<and> \<not> empty_value (row_full_name r)
      \<and> \<not> empty_value (row_email r) \<and> \<not> empty_value (row_company r)
      \<and> \<not> empty_value (row_title r))"

text \<open>A lead as a client posts it: the JSON object of the listed properties.\<close>

definition missing_required :: "json \<Rightarrow> bool" where
  "missing_required body =
     (falsy (field body ''agent_run_id'') \<or> falsy (field body ''full_name'')
      \<or> falsy (field body ''email'') \<or> falsy (field body ''company'')
      \<or> falsy (field body ''title''))"


text \<open>A signed-in user who owns run \<open>run-1\<close>, the same client without a session, and
  two leads: one without an email, one complete.\<close>

definition demo_leads_backend :: leads_backend where
  "demo_leads_backend =
     \<lparr> session = Some ''user-1'',
       owns_agent_run = (\<lambda>run uid. run = JStr ''run-1'' \<and> uid = ''user-1''),
       insert_accepted = (\<lambda>r. True), leads_table = [] \<rparr>"

definition anonymous_leads_backend :: leads_backend where
  "anonymous_leads_backend = demo_leads_backend \<lparr> session := None \<rparr>"

definition lead_without_email :: json where
  "lead_without_email =
     JObj [(''agent_run_id'', JStr ''run-1''), (''full_name'', JStr ''Ada Lovelace''),
           (''company'', JStr ''Analytical Engines''), (''title'', JStr ''Founder'')]"

definition complete_lead :: json where
  "complete_lead =
     JObj [(''agent_run_id'', JStr ''run-1''), (''full_name'', JStr ''Ada Lovelace''),
           (''email'', JStr ''ada@example.com''),
           (''company'', JStr ''Analytical Engines''), (''title'', JStr ''Founder'')]"

definition complete_lead_row :: lead_insert where
  "complete_lead_row =
     \<lparr> user_id = ''user-1'', agent_run_id = JStr ''run-1'',
       row_full_name = JStr ''Ada Lovelace'', row_email = JStr ''ada@example.com'',
       row_company = JStr ''Analytical Engines'', row_title = JStr ''Founder'',
       linkedin_url = JUndefined, website_url = JUndefined, row_notes = JUndefined \<rparr>"


section \<open>The agent-run route (frontend/src/app/api/agent/run/route.ts)\<close>

text \<open>The object handed to \<open>supabase.from('agents').insert\<close>.\<close>

record agent_insert =
  agent_user_id :: string
  status :: string
  inputs :: "(string \<times> json) list"

record task_insert =
  agent_id :: string
  task_type :: string
  task_status :: string

text \<open>
  The Supabase client as this route uses it: the session, the id the database gives an
  inserted agent row (\<open>None\<close>: the insert reports an error), whether it accepts the task
  row (the route does not look at that answer), the rows of \<open>agents\<close> and of \<open>tasks\<close>.
\<close>

record agents_backend =
  agent_session :: "string option"
  insert_agent :: "agent_insert \<Rightarrow> string option"
  task_accepted :: "task_insert \<Rightarrow> bool"
  agents_table :: "agent_insert list"
  tasks_table :: "task_insert list"

text \<open>What the route sends back on success: \<open>{ agent_id, status: 'active' }\<close>.\<close>

record run_started =
  started_agent_id :: string
  started_status :: string

text \<open>
  \<open>POST\<close> of the agent-run route: the response, and the rows of \<open>agents\<close> and of
  \<open>tasks\<close> afterwards. An unparsable or null body lands in the \<open>catch\<close> (500).
\<close>

definition agent_run_POST ::
  "agents_backend \<Rightarrow> json option
     \<Rightarrow> run_started response \<times> agent_insert list \<times> task_insert list" where
  "agent_run_POST b request_body =
     (case agent_session b of
        None \<Rightarrow> (Json_error 401 ''Unauthorized'', agents_table b, tasks_table b)
      | Some userId \<Rightarrow>
         (case request_body of
            None \<Rightarrow> (Json_error 500 ''Internal server error'', agents_table b, tasks_table b)
          | Some body \<Rightarrow>
             if body = JNull \<or> body = JUndefined
             then (Json_error 500 ''Internal server error'', agents_table b, tasks_table b)
             else
               (let row = \<lparr> agent_user_id = userId,
                            status = ''active'',
                            inputs = [(''industry'', field body ''target_industry''),
                                      (''role'', field body ''target_role''),
                                      (''region'', field body ''target_region''),
                                      (''lead_count'', field body ''lead_count''),
                                      (''email_tone'', field body ''email_tone''),
                                      (''objective'', field body ''email_objective'')] \<rparr>
                in case insert_agent b row of
                     None \<Rightarrow> (Json_error 500 ''Failed to create agent run'',
                              agents_table b, tasks_table b)
                   | Some new_id \<Rightarrow>
                       (let task = \<lparr> agent_id = new_id, task_type = ''initialize'',
                                     task_status = ''done'' \<rparr>
                        in (Json_success \<lparr> started_agent_id = new_id,
                                           started_status = ''active'' \<rparr>,
                            agents_table b @ [row],
                            if task_accepted b task then tasks_table b @ [task]
                            else tasks_table b)))))"

text \<open>The statuses the schema type \<open>Database.agents.Row.status\<close> declares.\<close>

definition declared_agent_statuses :: "string set" where
  "declared_agent_statuses = {''pending'', ''running'', ''completed'', ''failed''}"

text \<open>\<open>getStatusText\<close> of the dashboard's \<open>AgentStatusBar\<close>.\<close>

definition getStatusText :: "string \<Rightarrow> string" where
  "getStatusText st =
     (if st = ''completed'' then ''Agent task completed''
      else if st = ''running'' then ''Agent is running...''
      else if st = ''failed'' then ''Agent encountered an error''
      else ''Agent is waiting to start'')"

text \<open>A signed-in user starting a run from an empty database.\<close>

definition demo_agents_backend :: agents_backend where
  "demo_agents_backend =
     \<lparr> agent_session = Some ''user-1'', insert_agent = (\<lambda>r. Some ''agent-1''),
       task_accepted = (\<lambda>t. True), agents_table = [], tasks_table = [] \<rparr>"

definition demo_run_request :: json where
  "demo_run_request = JObj [(''target_industry'', JStr ''AI SaaS''), (''lead_count'', JNum 5)]"

definition demo_agent_row :: agent_insert where
  "demo_agent_row =
     \<lparr> agent_user_id = ''user-1'', status = ''active'',
       inputs = [(''industry'', JStr ''AI SaaS''), (''role'', JUndefined),
                 (''region'', JUndefined), (''lead_count'', JNum 5),
                 (''email_tone'', JUndefined), (''objective'', JUndefined)] \<rparr>"


section \<open>Memory Store\<close>

text \<open>
  Modelled from the spec: the two failures of the Memory Store and the three sources a
  recalled value can come from (the Memory Store's code is not among the sources).
\<close>

datatype memory_error = IOError | NotFoundError

datatype source = FromCache | FromDisk | FromDefault

text \<open>
  Modelled from the spec: the Memory Store's state (its code is not among the sources).
  The in-process cache, the on-disk JSON object, and whether a write of the file can
  complete.
\<close>

record memory_store =
  cache :: "string \<rightharpoonup> json"
  disk :: "string \<rightharpoonup> json"
  disk_writable :: bool

text \<open>
  Modelled from the spec: \<open>remember(key, value)\<close>. The cache is written first; the file
  is loaded, changed at the key and rewritten; a write that cannot complete gives
  \<open>IOError\<close> and leaves the file as it was, the cache keeping the value.
\<close>

definition remember ::
  "string \<Rightarrow> json \<Rightarrow> memory_store \<Rightarrow> (memory_error + json) \<times> memory_store" where
  "remember key v s =
     (let s1 = s \<lparr> cache := (cache s)(key \<mapsto> v) \<rparr>
      in if disk_writable s
         then (Inr v, s1 \<lparr> disk := (disk s)(key \<mapsto> v) \<rparr>)
         else (Inl IOError, s1))"

text \<open>
  Modelled from the spec: \<open>recall(key, default=None)\<close>. Cache first; on a miss the file,
  and a hit there fills the cache; on a total miss the default when one is given,
  \<open>NotFoundError\<close> otherwise.
\<close>

definition recall ::
  "string \<Rightarrow> json option \<Rightarrow> memory_store
     \<Rightarrow> (memory_error + json \<times> source) \<times> memory_store" where
  "recall key dflt s =
     (case cache s key of
        Some v \<Rightarrow> (Inr (v, FromCache), s)
      | None \<Rightarrow>
         (case disk s key of
            Some v \<Rightarrow> (Inr (v, FromDisk), s \<lparr> cache := (cache s)(key \<mapsto> v) \<rparr>)
          | None \<Rightarrow>
             (case dflt of
                Some d \<Rightarrow> (Inr (d, FromDefault), s)
              | None \<Rightarrow> (Inl NotFoundError, s))))"

text \<open>
  Modelled from the spec: \<open>clear()\<close>. The cache is emptied in any case; the file is
  overwritten with an empty mapping, or \<open>IOError\<close> when the write cannot complete.
\<close>

definition clear :: "memory_store \<Rightarrow> (memory_error + unit) \<times> memory_store" where
  "clear s =
     (let s1 = s \<lparr> cache := Map.empty \<rparr>
      in if disk_writable s then (Inr (), s1 \<lparr> disk := Map.empty \<rparr>) else (Inl IOError, s1))"

text \<open>
  Modelled from the spec: a fresh process (a restart). The file stays, the cache starts
  empty.
\<close>

definition restart :: "memory_store \<Rightarrow> memory_store" where
  "restart s = s \<lparr> cache := Map.empty \<rparr>"

text \<open>A store on first use: nothing cached, an empty file that can be written.\<close>

definition empty_store :: memory_store where
  "empty_store = \<lparr> cache = Map.empty, disk = Map.empty, disk_writable = True \<rparr>"

section \<open>Interaction Gate\<close>

text \<open>
  Modelled from the spec: trimming and case folding of an input line (the Interaction
  Gate's code is not among the sources), as Python's \<open>str.strip\<close> and \<open>str.lower\<close> do
  on ASCII text.
\<close>

definition is_space :: "char \<Rightarrow> bool" where
  "is_space c = (c \<in> set [CHR '' '', CHR 0x09, CHR 0x0A, CHR 0x0B, CHR 0x0C, CHR 0x0D])"

definition strip :: "string \<Rightarrow> string" where
  "strip s = rev (dropWhile is_space (rev (dropWhile is_space s)))"

definition lower_char :: "char \<Rightarrow> char" where
  "lower_char c =
     (case map_of (zip ''ABCDEFGHIJKLMNOPQRSTUVWXYZ'' ''abcdefghijklmnopqrstuvwxyz'') c of
        Some l \<Rightarrow> l
      | None \<Rightarrow> c)"

definition lower :: "string \<Rightarrow> string" where
  "lower s = map lower_char s"

text \<open>
  Modelled from the spec: the console of the Interaction Gate, standard input and output
  made explicit: the lines the operator will type, and what the Interaction Gate has shown so far.
\<close>

datatype event = Prompted string | Warned string

record console =
  pending :: "string list"
  events :: "event list"

text \<open>
  Modelled from the spec: \<open>confirm_action(description, default=False)\<close>, given the line the
  operator typed. Empty input yields the default; otherwise the stripped, lowercased
  input is looked up in y, yes, true, 1.
\<close>

definition confirm_action :: "string \<Rightarrow> bool \<Rightarrow> string \<Rightarrow> bool" where
  "confirm_action description dflt input =
     (if input = [] then dflt
      else lower (strip input) \<in> set [''y'', ''yes'', ''true'', ''1''])"

text \<open>
  Modelled from the spec: the retry loop of \<open>get_user_input\<close> over the lines still to be
  typed. An empty line yields the default when there is one; with \<open>valid_options\<close> given,
  a line whose stripped text is not an option is asked again, with no bound on the
  attempts. The first component is \<open>None\<close> when the input ends before a line is accepted.
\<close>

fun read_answer ::
  "string \<Rightarrow> string option \<Rightarrow> string list option \<Rightarrow> string list \<Rightarrow> event list
     \<Rightarrow> string option \<times> string list \<times> event list" where
  "read_answer p dflt opts [] shown = (None, [], shown @ [Prompted p])"
| "read_answer p dflt opts (line # rest) shown =
     (if line = [] \<and> dflt \<noteq> None then (dflt, rest, shown @ [Prompted p])
      else if (case opts of None \<Rightarrow> False | Some valid \<Rightarrow> strip line \<notin> set valid)
      then read_answer p dflt opts rest (shown @ [Prompted p])
      else (Some (strip line), rest, shown @ [Prompted p]))"

text \<open>Modelled from the spec: \<open>get_user_input(prompt, default=None, valid_options=None)\<close>.\<close>

definition get_user_input ::
  "string \<Rightarrow> string option \<Rightarrow> string list option \<Rightarrow> console \<Rightarrow> string option \<times> console" where
  "get_user_input p dflt opts con =
     (case read_answer p dflt opts (pending con) (events con) of
        (answer, rest, shown) \<Rightarrow> (answer, \<lparr> pending = rest, events = shown \<rparr>))"

text \<open>
  Modelled from the spec: one entry of the spec handed to \<open>ensure_required_inputs\<close>, with
  the type its answer is coerced to (\<open>int\<close>, \<open>float\<close>, \<open>bool\<close>, or the string as it is).
\<close>

datatype input_type = IntType | FloatType | BoolType | StrType

record input_spec =
  prompt :: string
  default_value :: "string option"
  valid_options :: "string list option"
  input_type :: input_type

text \<open>
  Modelled from the spec: the wrapped type coercion. \<open>conv\<close> is the language's own
  conversion of a string to the named type (\<open>None\<close> when it raises); a failure degrades
  to the raw string and a warning.
\<close>

definition coerce ::
  "(input_type \<Rightarrow> string \<Rightarrow> json option) \<Rightarrow> input_type \<Rightarrow> string \<Rightarrow> console
     \<Rightarrow> json \<times> console" where
  "coerce conv ty raw con =
     (if ty = StrType then (JStr raw, con)
      else case conv ty raw of
             Some v \<Rightarrow> (v, con)
           | None \<Rightarrow> (JStr raw, con \<lparr> events := events con @ [Warned raw] \<rparr>))"

text \<open>
  Modelled from the spec: the loop of \<open>ensure_required_inputs\<close> over the named inputs,
  with the mapping resolved so far. A remembered value is used as it is; otherwise the
  operator is asked, the answer coerced, remembered and returned. \<open>None\<close> when the
  operator's input ends.
\<close>

fun resolve_inputs ::
  "(input_type \<Rightarrow> string \<Rightarrow> json option) \<Rightarrow> (string \<times> input_spec) list
     \<Rightarrow> (string \<rightharpoonup> json) \<Rightarrow> memory_store \<Rightarrow> console
     \<Rightarrow> ((string \<rightharpoonup> json) \<times> memory_store \<times> console) option" where
  "resolve_inputs conv [] resolved st con = Some (resolved, st, con)"
| "resolve_inputs conv ((name, sp) # rest) resolved st con =
     (case recall name None st of
        (Inr (v, src), st1) \<Rightarrow> resolve_inputs conv rest (resolved(name \<mapsto> v)) st1 con
      | (Inl e, st1) \<Rightarrow>
         (case get_user_input (prompt sp) (default_value sp) (valid_options sp) con of
            (None, con1) \<Rightarrow> None
          | (Some raw, con1) \<Rightarrow>
             (case coerce conv (input_type sp) raw con1 of
                (v, con2) \<Rightarrow>
                  (case remember name v st1 of
                     (stored, st2) \<Rightarrow>
                       resolve_inputs conv rest (resolved(name \<mapsto> v)) st2 con2))))"

text \<open>Modelled from the spec: \<open>ensure_required_inputs(spec)\<close>.\<close>

definition ensure_required_inputs ::
  "(input_type \<Rightarrow> string \<Rightarrow> json option) \<Rightarrow> (string \<times> input_spec) list
     \<Rightarrow> memory_store \<Rightarrow> console
     \<Rightarrow> ((string \<rightharpoonup> json) \<times> memory_store \<times> console) option" where
  "ensure_required_inputs conv spec st con = resolve_inputs conv spec Map.empty st con"

text \<open>
  A run of the Interaction Gate: two inputs asked on an empty store; the operator types 7, then an
  industry that is not an option, then an empty line.
\<close>

definition demo_conv :: "input_type \<Rightarrow> string \<Rightarrow> json option" where
  "demo_conv ty raw = (if ty = IntType \<and> raw = ''7'' then Some (JNum 7) else None)"

definition demo_spec :: "(string \<times> input_spec) list" where
  "demo_spec =
     [(''leads_per_day'',
        \<lparr> prompt = ''How many leads?'', default_value = Some ''5'',
          valid_options = None, input_type = IntType \<rparr>),
      (''industry'',
        \<lparr> prompt = ''Which industry?'', default_value = Some ''AI SaaS'',
          valid_options = Some [''AI SaaS'', ''Fintech''], input_type = StrType \<rparr>)]"

definition demo_console :: console where
  "demo_console = \<lparr> pending = ['' 7 '', ''Healthcare'', []], events = [] \<rparr>"

definition silent_console :: console where
  "silent_console = \<lparr> pending = [], events = [] \<rparr>"

definition demo_resolved :: "string \<rightharpoonup> json" where
  "demo_resolved = [''leads_per_day'' \<mapsto> JNum 7, ''industry'' \<mapsto> JStr ''AI SaaS'']"

definition demo_store_after :: memory_store where
  "demo_store_after =
     \<lparr> cache = [''leads_per_day'' \<mapsto> JNum 7, ''industry'' \<mapsto> JStr ''AI SaaS''],
       disk = [''leads_per_day'' \<mapsto> JNum 7, ''industry'' \<mapsto> JStr ''AI SaaS''],
       disk_writable = True \<rparr>"

text \<open>A store with one key cached, one key only on disk.\<close>

definition half_loaded_store :: memory_store where
  "half_loaded_store =
     \<lparr> cache = [''role'' \<mapsto> JStr ''Founder''],
       disk = [''role'' \<mapsto> JStr ''CTO'', ''industry'' \<mapsto> JStr ''Fintech''],
       disk_writable = True \<rparr>"


section \<open>Lead acquisition\<close>

text \<open>
  Modelled from the spec: a Lead in its canonical shape, the columns of the local ledger
  (the orchestrator and its adapters are not among the sources).
\<close>

record lead =
  full_name :: string
  title :: string
  company :: string
  email :: string
  linkedin :: string
  industry :: string
  location :: string
  website :: string

text \<open>Modelled from the spec: the query \<open>(industry, role, location, count)\<close>.\<close>

record lead_query =
  q_industry :: string
  q_role :: string
  q_location :: string
  q_count :: nat

text \<open>
  Modelled from the spec: the error taxonomy of lead acquisition. \<open>TimeoutError\<close> is the
  exhausted poll budget ("run timed out"); \<open>AllSourcesFailed\<close> is the terminal error
  "failed to retrieve leads from all available sources".
\<close>

datatype lead_error =
    ConfigurationError
  | TransportError
  | ProviderError
  | TimeoutError
  | AllSourcesFailed

text \<open>
  Modelled from the spec: the statuses a scraping run reports, and the three adapters in
  priority order.
\<close>

datatype job_status = Running | Succeeded | Failed | Aborted | TimedOut

datatype tier = Primary | Secondary | Local

text \<open>
  Modelled from the spec: everything \<open>get_leads\<close> reads outside itself. The test-mode
  flag and the two API keys of the process environment; the primary provider's answer to
  a search (the people it holds for the filters, or the error it or the transport
  reports); the secondary provider's answers to starting a run, to the n-th status
  request and to the dataset request; the poll budget; the ledger file (\<open>None\<close>: it does
  not exist) and the fixed seed corpus.
\<close>

record sources =
  test_mode :: bool
  primary_api_key :: "string option"
  secondary_api_key :: "string option"
  primary_search :: "lead_query \<Rightarrow> lead_error + lead list"
  secondary_start :: "lead_query \<Rightarrow> lead_error + string"
  secondary_status :: "string \<Rightarrow> nat \<Rightarrow> lead_error + job_status"
  secondary_dataset :: "string \<Rightarrow> lead_error + lead list"
  max_polls :: nat
  ledger :: "lead list option"
  seed_leads :: "lead list"

text \<open>
  Modelled from the spec: substring match, the test \<open>needle in text\<close> of the Local
  Adapter's filter.
\<close>

fun starts_with :: "string \<Rightarrow> string \<Rightarrow> bool" where
  "starts_with [] text = True"
| "starts_with (c # cs) [] = False"
| "starts_with (c # cs) (d # ds) = (c = d \<and> starts_with cs ds)"

fun contains :: "string \<Rightarrow> string \<Rightarrow> bool" where
  "contains needle [] = (needle = [])"
| "contains needle (d # ds) = (starts_with needle (d # ds) \<or> contains needle ds)"

text \<open>
  Modelled from the spec: the Local Adapter's filter. Each of industry, role and location
  matches by case-insensitive substring, a blank filter matching every lead; the role is
  matched against the title.
\<close>

definition field_matches :: "string \<Rightarrow> string \<Rightarrow> bool" where
  "field_matches asked held = (asked = [] \<or> contains (lower asked) (lower held))"

definition lead_matches :: "lead_query \<Rightarrow> lead \<Rightarrow> bool" where
  "lead_matches q l =
     (field_matches (q_industry q) (industry l)
      \<and> field_matches (q_role q) (title l)
      \<and> field_matches (q_location q) (location l))"

text \<open>
  Modelled from the spec: the Secondary Adapter's polling loop, with the attempts left
  and the number of the next status request. A success status ends it; failed, aborted
  and timed-out statuses fail fast; an exhausted budget is the distinct "run timed out".
\<close>

fun poll_run :: "(nat \<Rightarrow> lead_error + job_status) \<Rightarrow> nat \<Rightarrow> nat \<Rightarrow> lead_error + unit" where
  "poll_run status_at 0 i = Inl TimeoutError"
| "poll_run status_at (Suc budget) i =
     (case status_at i of
        Inl e \<Rightarrow> Inl e
      | Inr Succeeded \<Rightarrow> Inr ()
      | Inr Running \<Rightarrow> poll_run status_at budget (Suc i)
      | Inr other \<Rightarrow> Inl ProviderError)"

text \<open>
  Modelled from the spec: the rows the Local Adapter filters: the ledger, or the seed
  corpus it is bootstrapped with when the file does not exist.
\<close>

definition ledger_rows :: "sources \<Rightarrow> lead list" where
  "ledger_rows s = (case ledger s of None \<Rightarrow> seed_leads s | Some rows \<Rightarrow> rows)"

text \<open>
  Modelled from the spec: what each adapter's source holds for a query, or why the
  attempt fails. Primary: the key, then the search. Secondary: the key, the start of a
  run, the polling, then the dataset. Local: the matching rows of the ledger.
\<close>

fun held :: "sources \<Rightarrow> lead_query \<Rightarrow> tier \<Rightarrow> lead_error + lead list" where
  "held s q Primary =
     (case primary_api_key s of
        None \<Rightarrow> Inl ConfigurationError
      | Some key \<Rightarrow> primary_search s q)"
| "held s q Secondary =
     (case secondary_api_key s of
        None \<Rightarrow> Inl ConfigurationError
      | Some key \<Rightarrow>
         (case secondary_start s q of
            Inl e \<Rightarrow> Inl e
          | Inr run \<Rightarrow>
             (case poll_run (secondary_status s run) (max_polls s) 0 of
                Inl e \<Rightarrow> Inl e
              | Inr done \<Rightarrow> secondary_dataset s run)))"
| "held s q Local = Inr (filter (lead_matches q) (ledger_rows s))"

text \<open>
  Modelled from the spec: the uniform contract \<open>fetch(industry, role, location, count)\<close>
  of an adapter: up to \<open>count\<close> of the leads its source holds (the page size of the
  primary search, "up to count matches" of the local filter).
\<close>

definition fetch :: "sources \<Rightarrow> lead_query \<Rightarrow> tier \<Rightarrow> lead_error + lead list" where
  "fetch s q t = (case held s q t of Inl e \<Rightarrow> Inl e | Inr found \<Rightarrow> Inr (take (q_count q) found))"

text \<open>Modelled from the spec: an error and an empty result both count as a failed
  attempt.\<close>

fun attempt_failed :: "lead_error + lead list \<Rightarrow> bool" where
  "attempt_failed (Inl e) = True"
| "attempt_failed (Inr found) = (found = [])"

text \<open>
  Modelled from the spec: the fallback chain over an ordered list of adapters. The first
  attempt that does not fail wins; later adapters are not attempted. The second
  component lists the adapters attempted, in order.
\<close>

fun try_tiers ::
  "(tier \<Rightarrow> lead_error + lead list) \<Rightarrow> tier list \<Rightarrow> (tier \<times> lead list) option \<times> tier list" where
  "try_tiers attempt [] = (None, [])"
| "try_tiers attempt (t # ts) =
     (case attempt t of
        Inr (l # ls) \<Rightarrow> (Some (t, l # ls), [t])
      | other \<Rightarrow> (case try_tiers attempt ts of (won, tried) \<Rightarrow> (won, t # tried)))"

text \<open>Modelled from the spec: test mode selects the Local Adapter outright, before the
  chain is entered.\<close>

definition tiers :: "sources \<Rightarrow> tier list" where
  "tiers s = (if test_mode s then [Local] else [Primary, Secondary, Local])"

text \<open>
  Modelled from the spec: what a call of \<open>get_leads\<close> leaves: its result, the ledger
  file afterwards, and the adapters it attempted, in order.
\<close>

record acquisition =
  result :: "lead_error + lead list"
  ledger_after :: "lead list option"
  attempted :: "tier list"

text \<open>
  Modelled from the spec: \<open>get_leads(industry, role, location, count)\<close> for a count the
  caller supplies. The leads of the winning adapter are appended to the ledger and
  returned; when every attempt fails the terminal error is returned. The Local Adapter,
  when attempted, leaves a ledger file behind (the seed corpus if there was none).
\<close>

definition get_leads :: "sources \<Rightarrow> lead_query \<Rightarrow> acquisition" where
  "get_leads s q =
     (let (won, tried) = try_tiers (fetch s q) (tiers s);
          on_disk = (if Local \<in> set tried then Some (ledger_rows s) else ledger s)
      in \<lparr> result = (case won of None \<Rightarrow> Inl AllSourcesFailed | Some (t, found) \<Rightarrow> Inr found),
           ledger_after =
             (case won of
                None \<Rightarrow> on_disk
              | Some (t, found) \<Rightarrow>
                  Some ((case on_disk of None \<Rightarrow> [] | Some rows \<Rightarrow> rows) @ found)),
           attempted = tried \<rparr>)"

section \<open>The entry point (main.py, from its compiled form)\<close>

text \<open>
  The configuration \<open>load_config\<close> returns: the parsed JSON object, by key. Reading a key
  that is absent raises \<open>KeyError\<close>. The environment gives \<open>os.getenv\<close>. \<open>main\<close> ends
  with a \<open>KeyError\<close>, by refusing with the lines it printed, or with what the planner's
  run gives.
\<close>

type_synonym config = "string \<rightharpoonup> json"

type_synonym environ = "string \<rightharpoonup> string"

datatype 'r main_outcome =
    KeyError string
  | Refused "string list"
  | Ran 'r

text \<open>Python's \<open>sep.join(xs)\<close>.\<close>

fun join :: "string \<Rightarrow> string list \<Rightarrow> string" where
  "join sep [] = []"
| "join sep [x] = x"
| "join sep (x # y # ys) = x @ sep @ join sep (y # ys)"

text \<open>The keys \<open>main\<close> collects in \<open>required_keys\<close>, given the three settings it reads.\<close>

definition required_keys :: "json \<Rightarrow> json \<Rightarrow> json \<Rightarrow> string list" where
  "required_keys lead_source email_provider crm =
     [''OPENAI_API_KEY'']
     @ (if lead_source = JStr ''apollo'' then [''APOLLO_API_KEY''] else [])
     @ (if email_provider = JStr ''gmail'' then [''GMAIL_CREDENTIALS''] else [])
     @ (if crm = JStr ''airtable'' then [''AIRTABLE_API_KEY''] else [])"

text \<open>\<open>[key for key in required_keys if not os.getenv(key)]\<close>: unset or empty.\<close>

definition missing_keys :: "environ \<Rightarrow> string list \<Rightarrow> string list" where
  "missing_keys env keys =
     filter (\<lambda>key. case env key of None \<Rightarrow> True | Some v \<Rightarrow> v = []) keys"

text \<open>
  \<open>main\<close>, after \<open>parse_args\<close> and \<open>load_config\<close>: with a required key missing it prints
  two lines and returns; otherwise it builds the planner and runs it. \<open>run_planner\<close> is
  \<open>AgentPlanner(config, mode=args.mode).run()\<close>.
\<close>

definition main :: "config \<Rightarrow> string \<Rightarrow> environ \<Rightarrow> (config \<Rightarrow> string \<Rightarrow> 'r) \<Rightarrow> 'r main_outcome" where
  "main cfg mode env run_planner =
     (case cfg ''lead_source'' of
        None \<Rightarrow> KeyError ''lead_source''
      | Some lead_source \<Rightarrow>
         (case cfg ''email_provider'' of
            None \<Rightarrow> KeyError ''email_provider''
          | Some email_provider \<Rightarrow>
             (case cfg ''crm'' of
                None \<Rightarrow> KeyError ''crm''
              | Some crm \<Rightarrow>
                 (let missing = missing_keys env (required_keys lead_source email_provider crm)
                  in if missing \<noteq> []
                     then Refused [''Missing required API keys: '' @ join '', '' missing,
                                   ''Please add them to your .env file'']
                     else Ran (run_planner cfg mode)))))"

text \<open>Three leads, and sources for the examples.\<close>

definition ada :: lead where
  "ada = \<lparr> full_name = ''Ada Lovelace'', title = ''Founder'', company = ''Analytical Engines'',
           email = ''ada@example.com'', linkedin = [], industry = ''AI SaaS'',
           location = ''United States'', website = [] \<rparr>"

definition grace :: lead where
  "grace = \<lparr> full_name = ''Grace Hopper'', title = ''Co-Founder'', company = ''Compilers Inc'',
             email = ''grace@example.com'', linkedin = [], industry = ''AI SaaS'',
             location = ''United States'', website = [] \<rparr>"

definition niklaus :: lead where
  "niklaus = \<lparr> full_name = ''Niklaus Wirth'', title = ''CTO'', company = ''Oberon Bank'',
               email = ''niklaus@example.com'', linkedin = [], industry = ''Fintech'',
               location = ''Switzerland'', website = [] \<rparr>"

definition founders_query :: lead_query where
  "founders_query = \<lparr> q_industry = ''ai'', q_role = ''founder'', q_location = [], q_count = 1 \<rparr>"

text \<open>No credentials, no network, no ledger file: only the seed corpus.\<close>

definition offline_sources :: sources where
  "offline_sources =
     \<lparr> test_mode = False, primary_api_key = None, secondary_api_key = None,
       primary_search = (\<lambda>q. Inl TransportError),
       secondary_start = (\<lambda>q. Inl TransportError),
       secondary_status = (\<lambda>run i. Inl TransportError),
       secondary_dataset = (\<lambda>run. Inl TransportError),
       max_polls = 3, ledger = None, seed_leads = [ada, niklaus] \<rparr>"

text \<open>Both keys set; the primary search finds nobody, the scraping run succeeds at the
  second status request and its dataset holds three leads; the ledger is empty.\<close>

definition remote_sources :: sources where
  "remote_sources =
     \<lparr> test_mode = False, primary_api_key = Some ''k1'', secondary_api_key = Some ''k2'',
       primary_search = (\<lambda>q. Inr []),
       secondary_start = (\<lambda>q. Inr ''run-1''),
       secondary_status = (\<lambda>run i. if i = 0 then Inr Running else Inr Succeeded),
       secondary_dataset = (\<lambda>run. Inr [ada, grace, niklaus]),
       max_polls = 3, ledger = Some [], seed_leads = [] \<rparr>"

definition two_leads :: lead_query where
  "two_leads = \<lparr> q_industry = [], q_role = [], q_location = [], q_count = 2 \<rparr>"

text \<open>The remote sources in test mode, with two leads in the ledger.\<close>

definition test_sources :: sources where
  "test_sources = remote_sources \<lparr> test_mode := True, ledger := Some [niklaus, ada] \<rparr>"

text \<open>A configuration that names Apollo as lead source, and two environments: one with
  only the OpenAI key, one with the Apollo key as well.\<close>

definition apollo_config :: config where
  "apollo_config =
     [''lead_source'' \<mapsto> JStr ''apollo'', ''email_provider'' \<mapsto> JStr ''mailersend'',
      ''crm'' \<mapsto> JStr ''local_csv'']"

text \<open>A planner's run that only acquires leads, from the offline sources.\<close>

definition offline_planner :: "config \<Rightarrow> string \<Rightarrow> lead_error + lead list" where
  "offline_planner cfg mode = result (get_leads offline_sources founders_query)"

definition bare_env :: environ where
  "bare_env = [''OPENAI_API_KEY'' \<mapsto> ''sk-test'']"

definition apollo_env :: environ where
  "apollo_env = [''OPENAI_API_KEY'' \<mapsto> ''sk-test'', ''APOLLO_API_KEY'' \<mapsto> ''ap-test'']"


section \<open>Required fields of a posted lead\<close>

lemma falsy_empty: "empty_value v \<Longrightarrow> falsy v"
  by (auto simp: empty_value_def)

lemma leads_POST_cases:
  assumes "leads_POST b (Some body) = (resp, table')"
  shows "(table' = leads_table b \<and> (\<exists>c m. resp = Json_error c m))
       \<or> (\<exists>row. table' = leads_table b @ [row] \<and> resp = Json_success row
             \<and> \<not> missing_required body \<and> session b \<noteq> None
             \<and> agent_run_id row = field body ''agent_run_id''
             \<and> row_full_name row = field body ''full_name''
             \<and> row_email row = field body ''email''
             \<and> row_company row = field body ''company''
             \<and> row_title row = field body ''title'')"
  using assms
  by (auto simp: leads_POST_def Let_def missing_required_def split: option.splits if_splits)





section \<open>Agent runs are created with status active\<close>

lemma active_not_declared: "''active'' \<notin> declared_agent_statuses"
  by (simp add: declared_agent_statuses_def)

lemma active_text: "getStatusText ''active'' = ''Agent is waiting to start''"
  by (simp add: getStatusText_def)

text \<open>
  C10. Whatever the agent-run POST adds to the \<open>agents\<close> table (one row when it answers
  with success, none otherwise) has status \<open>active\<close>, which is none of the statuses the
  schema type declares, and which the dashboard's status text sends to its default
  branch, "Agent is waiting to start".
\<close>

theorem agent_run_created_status_active:
  assumes "agent_run_POST b request_body = (resp, agents', tasks')"
  shows "\<exists>created. agents' = agents_table b @ created
           \<and> (\<forall>r \<in> set created. status r = ''active''
                 \<and> status r \<notin> declared_agent_statuses
                 \<and> getStatusText (status r) = ''Agent is waiting to start'')
           \<and> length created = (case resp of Json_success s \<Rightarrow> 1 | Json_error c m \<Rightarrow> 0)"
  using assms
  by (auto simp: agent_run_POST_def Let_def active_not_declared active_text
           split: option.splits if_splits)

theorem agent_run_created_status_active_witness:
  "agent_run_POST demo_agents_backend (Some demo_run_request)
     = (Json_success \<lparr> started_agent_id = ''agent-1'', started_status = ''active'' \<rparr>,
        [demo_agent_row],
        [\<lparr> agent_id = ''agent-1'', task_type = ''initialize'', task_status = ''done'' \<rparr>])
   \<and> status demo_agent_row \<notin> declared_agent_statuses
   \<and> getStatusText (status demo_agent_row) = ''Agent is waiting to start''"
proof -
  have run: "agent_run_POST demo_agents_backend (Some demo_run_request)
     = (Json_success \<lparr> started_agent_id = ''agent-1'', started_status = ''active'' \<rparr>,
        [demo_agent_row],
        [\<lparr> agent_id = ''agent-1'', task_type = ''initialize'', task_status = ''done'' \<rparr>])"
    by (simp add: agent_run_POST_def demo_agents_backend_def demo_run_request_def
                  demo_agent_row_def)
  have empty: "agents_table demo_agents_backend = []"
    by (simp add: demo_agents_backend_def)
  from agent_run_created_status_active [OF run]
  have "status demo_agent_row \<notin> declared_agent_statuses
        \<and> getStatusText (status demo_agent_row) = ''Agent is waiting to start''"
    unfolding empty by auto
  with run show ?thesis by blast
qed


section \<open>The Interaction Gate asks once\<close>

lemma recall_hit:
  "cache st k = Some v \<Longrightarrow> recall k None st = (Inr (v, FromCache), st)"
  by (simp add: recall_def)

lemma recall_cache_after:
  "recall k None st = (Inr (v, src), st1) \<Longrightarrow>
     cache st1 k = Some v \<and> (\<forall>k' w. cache st k' = Some w \<longrightarrow> cache st1 k' = Some w)"
  by (auto simp: recall_def split: option.splits)

lemma recall_miss:
  "recall k None st = (Inl e, st1) \<Longrightarrow> st1 = st \<and> cache st k = None"
  by (auto simp: recall_def split: option.splits)

lemma remember_cache_after:
  "remember k v st = (r, st2) \<Longrightarrow>
     cache st2 k = Some v \<and> (\<forall>k'. k' \<noteq> k \<longrightarrow> cache st2 k' = cache st k')"
  by (auto simp: remember_def Let_def split: if_splits)

lemma resolve_inputs_cached:
  "resolve_inputs conv spec resolved st con = Some (res, st', con') \<Longrightarrow>
     (\<forall>k w. cache st k = Some w \<longrightarrow> cache st' k = Some w)
     \<and> (\<forall>k. k \<notin> fst ` set spec \<longrightarrow> res k = resolved k)
     \<and> (\<forall>k \<in> fst ` set spec. res k = cache st' k \<and> cache st' k \<noteq> None)"
proof (induction spec arbitrary: resolved st con)
  case Nil
  then show ?case by simp
next
  case (Cons entry rest)
  obtain name sp where entry: "entry = (name, sp)" by (cases entry)
  obtain r st1 where rc: "recall name None st = (r, st1)" by (cases "recall name None st")
  show ?case
  proof (cases r)
    case (Inr hit)
    obtain v src where hit: "hit = (v, src)" by (cases hit)
    from Cons.prems entry rc Inr hit
    have run: "resolve_inputs conv rest (resolved(name \<mapsto> v)) st1 con = Some (res, st', con')"
      by simp
    from recall_cache_after rc Inr hit
    have c1: "cache st1 name = Some v"
      and m1: "\<forall>k' w. cache st k' = Some w \<longrightarrow> cache st1 k' = Some w"
      by blast+
    from Cons.IH [OF run]
    have mono: "\<forall>k w. cache st1 k = Some w \<longrightarrow> cache st' k = Some w"
      and out: "\<forall>k. k \<notin> fst ` set rest \<longrightarrow> res k = (resolved(name \<mapsto> v)) k"
      and inn: "\<forall>k \<in> fst ` set rest. res k = cache st' k \<and> cache st' k \<noteq> None"
      by blast+
    from mono c1 have c': "cache st' name = Some v" by blast
    have "res name = cache st' name \<and> cache st' name \<noteq> None"
    proof (cases "name \<in> fst ` set rest")
      case True
      with inn show ?thesis by blast
    next
      case False
      with out have "res name = Some v" by simp
      with c' show ?thesis by simp
    qed
    with mono m1 out inn entry show ?thesis by auto
  next
    case (Inl e)
    from recall_miss rc Inl have same: "st1 = st" and miss: "cache st name = None" by blast+
    obtain a con1 where ask:
      "get_user_input (prompt sp) (default_value sp) (valid_options sp) con = (a, con1)"
      by (cases "get_user_input (prompt sp) (default_value sp) (valid_options sp) con")
    from Cons.prems entry rc Inl ask obtain raw where a: "a = Some raw"
      by (cases a) auto
    obtain v con2 where co: "coerce conv (input_type sp) raw con1 = (v, con2)"
      by (cases "coerce conv (input_type sp) raw con1")
    obtain stored st2 where rm: "remember name v st1 = (stored, st2)"
      by (cases "remember name v st1")
    from Cons.prems entry rc Inl ask a co rm
    have run: "resolve_inputs conv rest (resolved(name \<mapsto> v)) st2 con2 = Some (res, st', con')"
      by simp
    from remember_cache_after [OF rm] same
    have c2: "cache st2 name = Some v"
      and o2: "\<forall>k'. k' \<noteq> name \<longrightarrow> cache st2 k' = cache st k'"
      by simp_all
    from o2 miss have m2: "\<forall>k' w. cache st k' = Some w \<longrightarrow> cache st2 k' = Some w"
      by (metis option.distinct(1))
    from Cons.IH [OF run]
    have mono: "\<forall>k w. cache st2 k = Some w \<longrightarrow> cache st' k = Some w"
      and out: "\<forall>k. k \<notin> fst ` set rest \<longrightarrow> res k = (resolved(name \<mapsto> v)) k"
      and inn: "\<forall>k \<in> fst ` set rest. res k = cache st' k \<and> cache st' k \<noteq> None"
      by blast+
    from mono c2 have c': "cache st' name = Some v" by blast
    have "res name = cache st' name \<and> cache st' name \<noteq> None"
    proof (cases "name \<in> fst ` set rest")
      case True
      with inn show ?thesis by blast
    next
      case False
      with out have "res name = Some v" by simp
      with c' show ?thesis by simp
    qed
    with mono m2 out inn entry show ?thesis by auto
  qed
qed

lemma resolve_inputs_replay:
  "\<forall>k \<in> fst ` set spec. cache st k \<noteq> None \<Longrightarrow>
     resolve_inputs conv spec resolved st con
       = Some (\<lambda>k. if k \<in> fst ` set spec then cache st k else resolved k, st, con)"
proof (induction spec arbitrary: resolved)
  case Nil
  then show ?case by simp
next
  case (Cons entry rest)
  obtain name sp where entry: "entry = (name, sp)" by (cases entry)
  from Cons.prems entry obtain v where v: "cache st name = Some v" by auto
  from Cons.prems have "\<forall>k \<in> fst ` set rest. cache st k \<noteq> None" by simp
  from Cons.IH [OF this, of "resolved(name \<mapsto> v)"]
  have "resolve_inputs conv rest (resolved(name \<mapsto> v)) st con
       = Some (\<lambda>k. if k \<in> fst ` set rest then cache st k else (resolved(name \<mapsto> v)) k, st, con)" .
  moreover have "(\<lambda>k. if k \<in> fst ` set rest then cache st k else (resolved(name \<mapsto> v)) k)
      = (\<lambda>k. if k \<in> fst ` set (entry # rest) then cache st k else resolved k)"
    using v entry by (auto simp: fun_eq_iff)
  ultimately show ?case using entry v by (simp add: recall_hit)
qed


lemma demo_first_run:
  "ensure_required_inputs demo_conv demo_spec empty_store demo_console
     = Some (demo_resolved, demo_store_after,
             \<lparr> pending = [],
               events = [Prompted ''How many leads?'', Prompted ''Which industry?'',
                         Prompted ''Which industry?''] \<rparr>)"
  by (simp add: ensure_required_inputs_def demo_spec_def empty_store_def demo_console_def
                recall_def get_user_input_def coerce_def remember_def demo_conv_def
                strip_def is_space_def demo_resolved_def demo_store_after_def Let_def)


section \<open>The Memory Store\<close>





section \<open>Yes or no\<close>

lemma is_space_lower_char: "is_space (lower_char c) = is_space c"
  by (auto simp: is_space_def lower_char_def split: option.splits if_splits)

lemma lower_char_idem: "lower_char (lower_char c) = lower_char c"
  by (auto simp: lower_char_def split: option.splits if_splits)

lemma dropWhile_space_lower:
  "dropWhile is_space (map lower_char s) = map lower_char (dropWhile is_space s)"
  by (induction s) (simp_all add: is_space_lower_char)

lemma strip_lower: "strip (lower s) = lower (strip s)"
  by (simp add: strip_def lower_def dropWhile_space_lower rev_map)

lemma lower_idem: "lower (lower s) = lower s"
  by (simp add: lower_def lower_char_idem)




section \<open>The fallback chain\<close>

text \<open>The step of the chain is unfolded by hand, through the next two lemmas.\<close>

declare try_tiers.simps(2) [simp del]

lemma try_tiers_failed:
  "attempt_failed (attempt t) \<Longrightarrow>
     try_tiers attempt (t # ts) = (fst (try_tiers attempt ts), t # snd (try_tiers attempt ts))"
  by (cases "attempt t") (auto simp: try_tiers.simps(2) split: list.splits prod.splits)

lemma try_tiers_won:
  "\<not> attempt_failed (attempt t) \<Longrightarrow>
     \<exists>found. attempt t = Inr found \<and> found \<noteq> []
        \<and> try_tiers attempt (t # ts) = (Some (t, found), [t])"
  by (cases "attempt t") (auto simp: try_tiers.simps(2) split: list.splits)

lemma try_tiers_all_failed:
  "\<forall>t \<in> set ts. attempt_failed (attempt t) \<Longrightarrow> try_tiers attempt ts = (None, ts)"
  by (induction ts) (simp_all add: try_tiers_failed)

lemma try_tiers_first_success:
  "\<exists>t \<in> set ts. \<not> attempt_failed (attempt t) \<Longrightarrow>
     \<exists>before t after found. ts = before @ t # after
        \<and> (\<forall>b \<in> set before. attempt_failed (attempt b))
        \<and> attempt t = Inr found \<and> found \<noteq> []
        \<and> try_tiers attempt ts = (Some (t, found), before @ [t])"
proof (induction ts)
  case Nil
  then show ?case by simp
next
  case (Cons u us)
  show ?case
  proof (cases "attempt_failed (attempt u)")
    case False
    from try_tiers_won [of attempt u us] False obtain found where
      "attempt u = Inr found" "found \<noteq> []" "try_tiers attempt (u # us) = (Some (u, found), [u])"
      by blast
    then have "u # us = [] @ u # us \<and> (\<forall>b \<in> set []. attempt_failed (attempt b))
        \<and> attempt u = Inr found \<and> found \<noteq> []
        \<and> try_tiers attempt (u # us) = (Some (u, found), [] @ [u])"
      by simp
    then show ?thesis by blast
  next
    case True
    with Cons.prems have "\<exists>t \<in> set us. \<not> attempt_failed (attempt t)" by auto
    from Cons.IH [OF this] obtain before t after found where
      h: "us = before @ t # after" "\<forall>b \<in> set before. attempt_failed (attempt b)"
         "attempt t = Inr found" "found \<noteq> []"
         "try_tiers attempt us = (Some (t, found), before @ [t])"
      by blast
    from h True have "u # us = (u # before) @ t # after
        \<and> (\<forall>b \<in> set (u # before). attempt_failed (attempt b))
        \<and> attempt t = Inr found \<and> found \<noteq> []
        \<and> try_tiers attempt (u # us) = (Some (t, found), (u # before) @ [t])"
      by (simp add: try_tiers_failed)
    then show ?thesis by blast
  qed
qed

lemma try_tiers_cong:
  "\<forall>t \<in> set ts. attempt t = other t \<or> (attempt_failed (attempt t) \<and> attempt_failed (other t))
     \<Longrightarrow> try_tiers attempt ts = try_tiers other ts"
proof (induction ts)
  case Nil
  then show ?case by simp
next
  case (Cons u us)
  then have rest: "try_tiers attempt us = try_tiers other us" by simp
  show ?case
  proof (cases "attempt_failed (attempt u)")
    case True
    with Cons.prems have "attempt_failed (other u)" by auto
    with True rest show ?thesis by (simp add: try_tiers_failed)
  next
    case False
    with Cons.prems have same: "attempt u = other u" by auto
    with False have "\<not> attempt_failed (other u)" by simp
    with try_tiers_won [of other u us] obtain found' where
      o: "other u = Inr found'" "try_tiers other (u # us) = (Some (u, found'), [u])"
      by blast
    from try_tiers_won [of attempt u us] False obtain found where
      a: "attempt u = Inr found" "try_tiers attempt (u # us) = (Some (u, found), [u])"
      by blast
    from same o a show ?thesis by simp
  qed
qed

lemma result_get_leads:
  "result (get_leads s q)
     = (case fst (try_tiers (fetch s q) (tiers s)) of
          None \<Rightarrow> Inl AllSourcesFailed
        | Some (t, found) \<Rightarrow> Inr found)"
  by (simp add: get_leads_def Let_def case_prod_beta)

lemma attempted_get_leads:
  "attempted (get_leads s q) = snd (try_tiers (fetch s q) (tiers s))"
  by (simp add: get_leads_def Let_def case_prod_beta)

lemma get_leads_cong:
  assumes c: "try_tiers (fetch s' q) (tiers s') = try_tiers (fetch s q) (tiers s)"
      and l: "ledger s' = ledger s"
      and r: "ledger_rows s' = ledger_rows s"
  shows "get_leads s' q = get_leads s q"
  unfolding get_leads_def c l r ..

lemma fetch_succeeds:
  "fetch s q t = Inr found \<Longrightarrow> found \<noteq> [] \<Longrightarrow>
     \<exists>pool. held s q t = Inr pool \<and> pool \<noteq> [] \<and> 0 < q_count q \<and> found = take (q_count q) pool"
  by (cases "held s q t") (auto simp: fetch_def)


lemma remote_run:
  "get_leads remote_sources two_leads
     = \<lparr> result = Inr [ada, grace], ledger_after = Some [ada, grace],
         attempted = [Primary, Secondary] \<rparr>"
  by (simp add: get_leads_def tiers_def remote_sources_def two_leads_def fetch_def
                try_tiers.simps(2) numeral_3_eq_3 Let_def)

lemma offline_run:
  "get_leads offline_sources founders_query
     = \<lparr> result = Inr [ada], ledger_after = Some [ada, niklaus, ada],
         attempted = [Primary, Secondary, Local] \<rparr>"
  by (simp add: get_leads_def tiers_def offline_sources_def founders_query_def fetch_def
                try_tiers.simps(2) Let_def ledger_rows_def lead_matches_def field_matches_def
                lower_def lower_char_def ada_def niklaus_def)


section \<open>Test mode\<close>



section \<open>An empty result is a failure\<close>

lemma attempted_prefix:
  assumes "tiers s = before @ t # nxt # after"
      and "\<forall>b \<in> set before. attempt_failed (fetch s q b)"
      and "attempt_failed (fetch s q t)"
  shows "\<exists>rest. attempted (get_leads s q) = before @ t # nxt # rest"
proof -
  have step: "\<And>ts. \<forall>b \<in> set before. attempt_failed (fetch s q b) \<Longrightarrow>
      snd (try_tiers (fetch s q) (before @ ts)) = before @ snd (try_tiers (fetch s q) ts)"
    by (induction before) (simp_all add: try_tiers_failed)
  have "\<exists>rest. snd (try_tiers (fetch s q) (nxt # after)) = nxt # rest"
  proof (cases "attempt_failed (fetch s q nxt)")
    case True
    then show ?thesis by (simp add: try_tiers_failed)
  next
    case False
    from try_tiers_won [of "fetch s q" nxt after] False show ?thesis by auto
  qed
  then obtain rest where "snd (try_tiers (fetch s q) (nxt # after)) = nxt # rest" by blast
  with assms(3) have "snd (try_tiers (fetch s q) (t # nxt # after)) = t # nxt # rest"
    by (simp add: try_tiers_failed)
  with step [OF assms(2), of "t # nxt # after"] assms(1)
  have "snd (try_tiers (fetch s q) (tiers s)) = before @ t # nxt # rest" by simp
  then have "attempted (get_leads s q) = before @ t # nxt # rest"
    by (simp add: attempted_get_leads)
  then show ?thesis by blast
qed

lemma failed_as_error:
  "attempt_failed (attempt t) \<Longrightarrow> try_tiers (attempt(t := Inl e)) ts = try_tiers attempt ts"
  by (rule try_tiers_cong) auto



section \<open>A missing credential\<close>

lemma main_decides:
  assumes "cfg ''lead_source'' = Some src" and "cfg ''email_provider'' = Some ep"
      and "cfg ''crm'' = Some crm"
  shows "main cfg mode env run_planner
           = (if missing_keys env (required_keys src ep crm) = []
              then Ran (run_planner cfg mode)
              else Refused [''Missing required API keys: ''
                              @ join '', '' (missing_keys env (required_keys src ep crm)),
                            ''Please add them to your .env file''])"
  using assms by (simp add: main_def Let_def)

lemma apollo_key_required:
  "env ''APOLLO_API_KEY'' = None \<Longrightarrow>
     missing_keys env (required_keys (JStr ''apollo'') ep crm) \<noteq> []"
  by (simp add: missing_keys_def required_keys_def filter_empty_conv)




end
